theory Spec2Isabelle
  imports Main
begin

section \<open>Strings and paths\<close>

text \<open>
  The tool works on Python 2 byte strings, modelled as \<^typ>\<open>string\<close>. The string
  methods and the \<open>os.path\<close> functions used by \<open>mask_aligned_reads.py\<close> are the
  POSIX ones; \<open>os.path.abspath\<close> depends on the working directory and is a
  parameter of the file system below.
\<close>

definition endswith :: "string \<Rightarrow> string \<Rightarrow> bool" where
  "endswith s suf = (drop (length s - length suf) s = suf)"

definition startswith :: "string \<Rightarrow> string \<Rightarrow> bool" where
  "startswith s pre = (take (length pre) s = pre)"

definition isspace :: "char \<Rightarrow> bool" where
  "isspace c = (c = CHR '' '' \<or> c = CHR 0x09 \<or> c = CHR 0x0A \<or> c = CHR 0x0B
                \<or> c = CHR 0x0C \<or> c = CHR 0x0D)"

definition strip :: "string \<Rightarrow> string" where
  "strip s = rev (dropWhile isspace (rev (dropWhile isspace s)))"

definition basename :: "string \<Rightarrow> string" where
  "basename p = rev (takeWhile (\<lambda>c. c \<noteq> CHR ''/'') (rev p))"

definition join :: "string \<Rightarrow> string \<Rightarrow> string" where
  "join a b =
     (if startswith b ''/'' then b
      else if a = [] \<or> endswith a ''/'' then a @ b
      else a @ ''/'' @ b)"

definition rfind :: "char \<Rightarrow> string \<Rightarrow> int" where
  "rfind c s =
     (if c \<in> set s then int (length s) - 1 - int (length (takeWhile (\<lambda>d. d \<noteq> c) (rev s)))
      else - 1)"

definition splitext_root :: "string \<Rightarrow> string" where
  "splitext_root p =
     (let sepIndex = rfind (CHR ''/'') p;
          dotIndex = rfind (CHR ''.'') p
      in if dotIndex > sepIndex \<and>
            list_ex (\<lambda>c. c \<noteq> CHR ''.'')
              (take (nat (dotIndex - (sepIndex + 1))) (drop (nat (sepIndex + 1)) p))
         then take (nat dotIndex) p
         else p)"

subsection \<open>The two regular expressions of the pass\<close>

definition isdigit :: "char \<Rightarrow> bool" where
  "isdigit c = (c \<in> set ''0123456789'')"

text \<open>
  \<open>rx = re.compile(r'\.[0-9].rgn\.h5')\<close>: a literal dot, one digit, any character but a
  newline (the third dot is not escaped), then \<open>rgn.h5\<close>. \<open>rx_match_at s\<close> says that a
  match starts at the head of \<open>s\<close>; \<open>rx_search\<close> is \<open>rx.search\<close>, which tries every
  position.
\<close>

fun rx_match_at :: "string \<Rightarrow> bool" where
  "rx_match_at (a # b # c # rest) =
     (a = CHR ''.'' \<and> isdigit b \<and> c \<noteq> CHR 0x0A \<and> startswith rest ''rgn.h5'')"
| "rx_match_at _ = False"

fun rx_search :: "string \<Rightarrow> bool" where
  "rx_search [] = False"
| "rx_search (c # cs) = (rx_match_at (c # cs) \<or> rx_search cs)"

text \<open>
  \<open>re.split(r'.rgn\.h5', basename)[0]\<close>: the text before the leftmost match of any
  character but a newline followed by \<open>rgn.h5\<close>; the whole string when nothing matches.
\<close>

fun split_first :: "string \<Rightarrow> string" where
  "split_first [] = []"
| "split_first (c # cs) =
     (if c \<noteq> CHR 0x0A \<and> startswith cs ''rgn.h5'' then [] else c # split_first cs)"

section \<open>Region tables\<close>

record Region =
  rgnType :: string
  rgnStart :: int
  rgnEnd :: int
  rgnScore :: int

record RegionTable =
  holeNumber :: int
  regions :: "Region list"

definition isHQ :: "Region \<Rightarrow> bool" where
  "isHQ r = (rgnType r = ''HQRegion'')"

definition getHQRegion :: "RegionTable \<Rightarrow> Region option" where
  \<comment> \<open>Modelled from the spec: the lookup-by-type accessor of \<open>pbalign.utils.RgnH5IO\<close>
      (not among the sources), the HQRegion sub-region if present, \<open>None\<close> otherwise,
      whatever the order of the sub-regions.\<close>
  "getHQRegion rt = find isHQ (regions rt)"

fun setFirstHQ :: "int \<Rightarrow> int \<Rightarrow> Region list \<Rightarrow> Region list" where
  "setFirstHQ s e [] = []"
| "setFirstHQ s e (r # rs) =
     (if isHQ r then r\<lparr>rgnStart := s, rgnEnd := e\<rparr> # rs else r # setFirstHQ s e rs)"

definition setHQRegion :: "int \<Rightarrow> int \<Rightarrow> RegionTable \<Rightarrow> RegionTable" where
  \<comment> \<open>Modelled from the spec: \<open>RegionTable.setHQRegion\<close> of \<open>pbalign.utils.RgnH5IO\<close>
      (not among the sources) replaces the (start, end) of the HQRegion sub-region and
      leaves its score and all other sub-regions untouched; a record without an
      HQRegion passes through.\<close>
  "setHQRegion s e rt = rt\<lparr>regions := setFirstHQ s e (regions rt)\<rparr>"

section \<open>Exceptions, iterators and files\<close>

datatype exn = IndexError | EmptyCmpH5Error | KeyError | IOError | OSError | DecodeError

text \<open>What an iterator does at each step: it yields an item or raises.\<close>

datatype 'a step = Yield 'a | Throw exn

text \<open>
  What \<open>CmpH5Reader(path)\<close> finds: the constructor raises, or it gives a reader with a
  movie table (\<open>movieInfoTable.Name\<close>) and an iteration over alignment records, each
  with \<open>movieInfo.Name\<close> and \<open>HoleNumber\<close>.
\<close>

datatype cmp_archive =
  CmpOpenRaises exn
| CmpH5 "string list" "(string \<times> int) step list"

text \<open>
  A region-table file as \<open>RgnH5Reader\<close> reads it: the declared movie name, the scan
  metadata block, and the iteration over its records, which raises at a record that
  cannot be decoded.
\<close>

record RgnH5 =
  movieName :: string
  scanDataGroup :: string
  rows :: "RegionTable step list"

text \<open>
  The file system as the run finds it. A path at which \<open>textFiles\<close> or \<open>rgnFiles\<close> is
  \<open>None\<close> cannot be opened for reading, and opening it raises IOError. \<open>pathExists\<close>
  and \<open>isDir\<close> are \<open>os.path.exists\<close> and the directories before the run, \<open>mkdirFails\<close>
  says where \<open>os.mkdir\<close> would fail, and \<open>openWFails\<close> where a file could not be
  opened for writing for a reason that lies in the file system before the run (a
  missing parent directory, no permission). What the run itself changes, the
  directory it makes and the output manifest it truncates, is followed by
  \<open>outFofnOpens\<close> and \<open>inFofnLines\<close> below. For the region tables the model
  takes the writer to succeed and an output path not to be one of the files the run
  reads.
\<close>

record FS =
  cmpFiles :: "string \<Rightarrow> cmp_archive"
  textFiles :: "string \<Rightarrow> string list option"
  rgnFiles :: "string \<Rightarrow> RgnH5 option"
  abspath :: "string \<Rightarrow> string"
  pathExists :: "string \<Rightarrow> bool"
  isDir :: "string \<Rightarrow> bool"
  mkdirFails :: "string \<Rightarrow> bool"
  openWFails :: "string \<Rightarrow> bool"

text \<open>Two spellings of one path: \<open>os.path.abspath\<close> makes them equal.\<close>

definition samePath :: "FS \<Rightarrow> string \<Rightarrow> string \<Rightarrow> bool" where
  "samePath fs p q = (abspath fs p = abspath fs q)"

text \<open>A region-table file being written by \<open>RgnH5Writer\<close>.\<close>

record outfile =
  scan :: "string option"
  tables :: "RegionTable list"
  isClosed :: bool

datatype msg =
  Stderr string
| LogWarn string
| LogError string
| LogException exn
| Traceback exn

text \<open>
  What the run has produced so far: the directories made, the output manifest (\<open>None\<close>
  until it is opened for writing, then the lines written), the region-table files
  written, and the messages of \<open>sys.stderr.write\<close>, \<open>logging.warn\<close> and
  \<open>logging.error\<close> in order.
\<close>

record world =
  madeDirs :: "string list"
  fofnOut :: "string list option"
  outs :: "string \<rightharpoonup> outfile"
  messages :: "msg list"

definition w0 :: world where
  "w0 = \<lparr>madeDirs = [], fofnOut = None, outs = Map.empty, messages = []\<rparr>"

datatype outcome = Returned int | Raised exn

record AlignedReadsMasker =
  inCmpFile :: string
  inRgnFofn :: string
  outRgnFofn :: string

section \<open>The alignment index\<close>

type_synonym index = "string \<rightharpoonup> int set"

definition setdefault_empty :: "index \<Rightarrow> string \<Rightarrow> index" where
  "setdefault_empty alignedReads movie =
     (case alignedReads movie of None \<Rightarrow> alignedReads(movie \<mapsto> {}) | Some _ \<Rightarrow> alignedReads)"

fun seedMovies :: "index \<Rightarrow> string list \<Rightarrow> index" where
  "seedMovies alignedReads [] = alignedReads"
| "seedMovies alignedReads (movie # ms) = seedMovies (setdefault_empty alignedReads movie) ms"

fun addAlignments :: "index \<Rightarrow> (string \<times> int) step list \<Rightarrow> index \<times> exn option" where
  "addAlignments alignedReads [] = (alignedReads, None)"
| "addAlignments alignedReads (Throw e # _) = (alignedReads, Some e)"
| "addAlignments alignedReads (Yield (name, hole) # rest) =
     (case alignedReads name of
        None \<Rightarrow> (alignedReads, Some KeyError)
      | Some s \<Rightarrow> addAlignments (alignedReads(name \<mapsto> insert hole s)) rest)"

text \<open>
  The body of the \<open>try\<close> of \<open>_extractAlignedReads\<close>: the dictionary as it stands when
  the body ends, and the exception that ended it, if any.
\<close>

definition tryExtract :: "cmp_archive \<Rightarrow> index \<times> exn option" where
  "tryExtract a =
     (case a of
        CmpOpenRaises e \<Rightarrow> (Map.empty, Some e)
      | CmpH5 names alns \<Rightarrow> addAlignments (seedMovies Map.empty names) alns)"

definition noReadsMsg :: "AlignedReadsMasker \<Rightarrow> string" where
  "noReadsMsg self = ''No aligned reads found in '' @ inCmpFile self"

definition extractAlignedReads :: "FS \<Rightarrow> AlignedReadsMasker \<Rightarrow> (exn + index) \<times> msg list" where
  "extractAlignedReads fs self =
     (case tryExtract (cmpFiles fs (inCmpFile self)) of
        (alignedReads, None) \<Rightarrow> (Inr alignedReads, [])
      | (alignedReads, Some e) \<Rightarrow>
          if e = IndexError \<or> e = EmptyCmpH5Error
          then (Inr alignedReads,
                [Stderr (noReadsMsg self @ [CHR 0x0A]), LogWarn (noReadsMsg self)])
          else (Inl e, []))"

section \<open>The masking pass\<close>

definition isAligned :: "string \<Rightarrow> index \<Rightarrow> RegionTable \<Rightarrow> bool" where
  "isAligned movie alignedReads rt =
     (case alignedReads movie of None \<Rightarrow> False | Some s \<Rightarrow> holeNumber rt \<in> s)"

definition maskRegionTable :: "string \<Rightarrow> index \<Rightarrow> RegionTable \<Rightarrow> RegionTable" where
  "maskRegionTable movie alignedReads rt =
     (if isAligned movie alignedReads rt then setHQRegion 0 0 rt else rt)"

text \<open>
  The four operations of \<open>RgnH5Writer\<close> that the pass calls: the constructor, which
  creates the file, \<open>writeScanDataGroup\<close>, \<open>addRegionTable\<close> and \<open>close\<close>.
\<close>

definition newWriter :: outfile where
  \<comment> \<open>Modelled from the spec: \<open>RgnH5Writer\<close> of \<open>pbalign.utils.RgnH5IO\<close> is not among
      the sources; a freshly created region-table file is opened for write before the
      first record is emitted, with no scan metadata and no record yet.\<close>
  "newWriter = \<lparr>scan = None, tables = [], isClosed = False\<rparr>"

definition writeScanDataGroup :: "outfile \<Rightarrow> string \<Rightarrow> outfile" where
  \<comment> \<open>Modelled from the spec: the scan metadata block is copied verbatim from input to
      output.\<close>
  "writeScanDataGroup wr sd = wr\<lparr>scan := Some sd\<rparr>"

definition addRegionTable :: "outfile \<Rightarrow> RegionTable \<Rightarrow> outfile" where
  \<comment> \<open>Modelled from the spec: the writer appends, preserving the order of the records.\<close>
  "addRegionTable wr rt = wr\<lparr>tables := tables wr @ [rt]\<rparr>"

definition closeWriter :: "outfile \<Rightarrow> outfile" where
  \<comment> \<open>Modelled from the spec: the file is closed after the last record, at which point
      it becomes durable.\<close>
  "closeWriter wr = wr\<lparr>isClosed := True\<rparr>"

fun maskLoop :: "string \<Rightarrow> index \<Rightarrow> RegionTable step list \<Rightarrow> outfile \<Rightarrow> outfile \<times> exn option" where
  "maskLoop movie alignedReads [] wr = (wr, None)"
| "maskLoop movie alignedReads (Throw e # _) wr = (wr, Some e)"
| "maskLoop movie alignedReads (Yield rt # rest) wr =
     maskLoop movie alignedReads rest (addRegionTable wr (maskRegionTable movie alignedReads rt))"

definition movieId_of :: "string \<Rightarrow> string \<Rightarrow> string" where
  "movieId_of bn movie = (if rx_search bn then split_first bn else movie)"

definition outH5FN_of :: "FS \<Rightarrow> string \<Rightarrow> string \<Rightarrow> string \<Rightarrow> string" where
  "outH5FN_of fs outDir rgnH5FN movie =
     abspath fs (join outDir (movieId_of (basename rgnH5FN) movie @ ''.rgn.h5''))"

definition badLineMsg :: "string \<Rightarrow> msg" where
  "badLineMsg rgnH5FN = LogError (''Region table file '' @ rgnH5FN @ '' should be a rgn.h5 file.'')"

text \<open>
  One turn of the loop over the manifest (lines 55 to 89). The result is \<open>None\<close> when
  the turn ends normally and the loop goes on, the early \<open>return 1\<close> or the exception
  otherwise.
\<close>

definition processFile :: "FS \<Rightarrow> index \<Rightarrow> string \<Rightarrow> string \<Rightarrow> world \<Rightarrow> outcome option \<times> world" where
  "processFile fs alignedReads outDir line w =
     (let rgnH5FN = strip line in
      if \<not> endswith rgnH5FN ''rgn.h5''
      then (Some (Returned 1), w\<lparr>messages := messages w @ [badLineMsg rgnH5FN]\<rparr>)
      else
        (case rgnFiles fs rgnH5FN of
           None \<Rightarrow> (Some (Raised IOError), w)
         | Some rgnReader \<Rightarrow>
             (let outH5FN = outH5FN_of fs outDir rgnH5FN (movieName rgnReader);
                  w1 = w\<lparr>fofnOut := map_option (\<lambda>ls. ls @ [outH5FN @ [CHR 0x0A]]) (fofnOut w)\<rparr>;
                  rgnWriter = writeScanDataGroup newWriter (scanDataGroup rgnReader)
              in (case maskLoop (movieName rgnReader) alignedReads (rows rgnReader) rgnWriter of
                    (wr, Some e) \<Rightarrow> (Some (Raised e), w1\<lparr>outs := (outs w1)(outH5FN \<mapsto> wr)\<rparr>)
                  | (wr, None) \<Rightarrow>
                      (None, w1\<lparr>outs := (outs w1)(outH5FN \<mapsto> closeWriter wr)\<rparr>)))))"

fun processLines :: "FS \<Rightarrow> index \<Rightarrow> string \<Rightarrow> string list \<Rightarrow> world \<Rightarrow> outcome option \<times> world" where
  "processLines fs alignedReads outDir [] w = (None, w)"
| "processLines fs alignedReads outDir (line # rest) w =
     (case processFile fs alignedReads outDir line w of
        (None, w') \<Rightarrow> processLines fs alignedReads outDir rest w'
      | (Some oc, w') \<Rightarrow> (Some oc, w'))"



text \<open>
  Line 49, \<open>open(self.outRgnFofn, 'w')\<close>, after lines 44 to 47. It raises IOError on a
  directory: one that was there before the run, or the one the run has just made at
  this very path, which is the case of an \<open>outRgnFofn\<close> without extension, where
  \<open>outDir\<close> is \<open>outRgnFofn\<close> itself.
\<close>

definition outFofnOpens :: "FS \<Rightarrow> AlignedReadsMasker \<Rightarrow> bool" where
  "outFofnOpens fs self =
     (let out = outRgnFofn self; outDir = splitext_root out
      in \<not> (isDir fs out \<or> (\<not> pathExists fs outDir \<and> samePath fs out outDir) \<or> openWFails fs out))"

text \<open>
  Line 55, \<open>open(self.inRgnFofn, 'r')\<close> read to its end, after line 49. A directory
  cannot be read, be it an old one or the one just made. When \<open>inRgnFofn\<close> and
  \<open>outRgnFofn\<close> are one file, line 49 has emptied it and there is no line to read.
\<close>

definition inFofnLines :: "FS \<Rightarrow> AlignedReadsMasker \<Rightarrow> string list option" where
  "inFofnLines fs self =
     (let inp = inRgnFofn self; out = outRgnFofn self; outDir = splitext_root out
      in if isDir fs inp \<or> (\<not> pathExists fs outDir \<and> samePath fs inp outDir) then None
         else if samePath fs inp out then Some []
         else textFiles fs inp)"

text \<open>Lines 44 to 92 of \<open>maskAlignedReads\<close>, once the index is there.\<close>

definition maskWithIndex :: "FS \<Rightarrow> AlignedReadsMasker \<Rightarrow> index \<Rightarrow> world \<Rightarrow> outcome \<times> world" where
  "maskWithIndex fs self alignedReads w =
     (let outDir = splitext_root (outRgnFofn self) in
      if \<not> pathExists fs outDir \<and> mkdirFails fs outDir then (Raised OSError, w)
      else
        (let w1 = (if pathExists fs outDir then w else w\<lparr>madeDirs := madeDirs w @ [outDir]\<rparr>)
         in if \<not> outFofnOpens fs self then (Raised IOError, w1)
            else
              (let w2 = w1\<lparr>fofnOut := Some []\<rparr>
               in (case inFofnLines fs self of
                     None \<Rightarrow> (Raised IOError, w2)
                   | Some ls \<Rightarrow>
                       (case processLines fs alignedReads outDir ls w2 of
                          (None, w3) \<Rightarrow> (Returned 0, w3)
                        | (Some oc, w3) \<Rightarrow> (oc, w3))))))"

definition maskAlignedReads :: "FS \<Rightarrow> AlignedReadsMasker \<Rightarrow> outcome \<times> world" where
  "maskAlignedReads fs self =
     (case extractAlignedReads fs self of
        (Inl e, ms) \<Rightarrow> (Raised e, w0\<lparr>messages := ms\<rparr>)
      | (Inr alignedReads, ms) \<Rightarrow> maskWithIndex fs self alignedReads (w0\<lparr>messages := ms\<rparr>))"

text \<open>
  \<open>run\<close> calls \<open>masker.maskAlignedReads()\<close> as a statement: what the call returns is
  dropped, and only an exception makes \<open>run\<close> return 1.
\<close>

definition run :: "FS \<Rightarrow> string \<Rightarrow> string \<Rightarrow> string \<Rightarrow> int \<times> world" where
  "run fs inCmp inFofn outFofn =
     (let masker = \<lparr>inCmpFile = inCmp, inRgnFofn = inFofn, outRgnFofn = outFofn\<rparr>
      in (case maskAlignedReads fs masker of
            (Raised e, w) \<Rightarrow> (1, w\<lparr>messages := messages w @ [LogException e, Traceback e]\<rparr>)
          | (Returned r, w) \<Rightarrow> (0, w)))"

section \<open>Vocabulary of the claims\<close>

text \<open>
  The sub-regions of a record other than those tagged HQRegion, and the (start, end) of
  its HQRegion, as the accessor finds it.
\<close>

definition nonHQ :: "RegionTable \<Rightarrow> Region list" where
  "nonHQ rt = filter (\<lambda>r. \<not> isHQ r) (regions rt)"

definition hqSpan :: "RegionTable \<Rightarrow> (int \<times> int) option" where
  "hqSpan rt = map_option (\<lambda>r. (rgnStart r, rgnEnd r)) (getHQRegion rt)"

text \<open>
  The index the claims speak of: every movie of the table is a key, and its value is
  the set of the hole numbers of its records.
\<close>

definition indexOf :: "string list \<Rightarrow> (string \<times> int) list \<Rightarrow> index" where
  "indexOf names alns = (\<lambda>m. if m \<in> set names then Some {h. (m, h) \<in> set alns} else None)"

text \<open>
  The items an iterator yields before it raises, and whether it ends without raising.
\<close>

fun yields :: "'a step list \<Rightarrow> 'a list" where
  "yields [] = []"
| "yields (Throw e # _) = []"
| "yields (Yield x # rest) = x # yields rest"

fun decodes :: "'a step list \<Rightarrow> bool" where
  "decodes [] = True"
| "decodes (Throw e # _) = False"
| "decodes (Yield x # rest) = decodes rest"

text \<open>
  A manifest line whose turn of the loop ends normally: it passes the suffix check, the
  region-table file opens, and every record decodes. \<open>plannedPath\<close> is the output
  path of its turn, \<open>maskedCopy\<close> the output file and \<open>turnOK\<close> the world after the
  turn.
\<close>

definition goodLine :: "FS \<Rightarrow> string \<Rightarrow> bool" where
  "goodLine fs line =
     (endswith (strip line) ''rgn.h5'' \<and>
      (case rgnFiles fs (strip line) of None \<Rightarrow> False | Some rd \<Rightarrow> decodes (rows rd)))"

definition plannedPath :: "FS \<Rightarrow> string \<Rightarrow> string \<Rightarrow> string" where
  "plannedPath fs outDir line =
     (case rgnFiles fs (strip line) of
        None \<Rightarrow> []
      | Some rd \<Rightarrow> outH5FN_of fs outDir (strip line) (movieName rd))"

definition maskedCopy :: "index \<Rightarrow> RgnH5 \<Rightarrow> outfile" where
  "maskedCopy alignedReads rd =
     \<lparr>scan = Some (scanDataGroup rd),
      tables = map (maskRegionTable (movieName rd) alignedReads) (yields (rows rd)),
      isClosed = True\<rparr>"

definition turnOK :: "FS \<Rightarrow> index \<Rightarrow> string \<Rightarrow> world \<Rightarrow> string \<Rightarrow> world" where
  "turnOK fs alignedReads outDir w line =
     (case rgnFiles fs (strip line) of
        None \<Rightarrow> w
      | Some rd \<Rightarrow>
          w\<lparr>fofnOut := map_option (\<lambda>ls. ls @ [plannedPath fs outDir line @ [CHR 0x0A]]) (fofnOut w),
            outs := (outs w)(plannedPath fs outDir line \<mapsto> maskedCopy alignedReads rd)\<rparr>)"




text \<open>
  The naming rule in the spec's words: a filename that ends in a literal dot, one
  digit and the literal suffix \<open>.rgn.h5\<close> keeps its name without that suffix; any other
  filename takes the declared movie name.
\<close>

definition spec_isPartName :: "string \<Rightarrow> bool" where
  "spec_isPartName fn =
     (endswith fn ''.rgn.h5'' \<and>
      (case rev (take (length fn - 7) fn) of
         d # dot # _ \<Rightarrow> isdigit d \<and> dot = CHR ''.''
       | _ \<Rightarrow> False))"

definition spec_stem :: "string \<Rightarrow> string \<Rightarrow> string" where
  "spec_stem fn movie = (if spec_isPartName fn then take (length fn - 7) fn else movie)"

section \<open>Example inputs\<close>

text \<open>
  Two records, one with an adapter and an HQRegion and one whose HQRegion is (0, 0)
  already; region tables of movies m1 and m2, one more of m1, and one of m1 whose
  second record does not decode; a file system with five archives (complete, cut short
  by an IndexError, empty, broken off by an IOError, and any other name missing) and
  four manifests, in which no directory \<open>out\<close> exists yet; and the maskers of the
  runs on them.
\<close>

definition rtA:: RegionTable where
  "rtA = \<lparr>holeNumber = 7, regions =
      [\<lparr>rgnType = ''Adapter'', rgnStart = 100, rgnEnd = 140, rgnScore = 600\<rparr>,
       \<lparr>rgnType = ''HQRegion'', rgnStart = 10, rgnEnd = 900, rgnScore = 850\<rparr>]\<rparr>"

definition rtZ :: RegionTable where
  "rtZ = \<lparr>holeNumber = 8, regions =
      [\<lparr>rgnType = ''HQRegion'', rgnStart = 0, rgnEnd = 0, rgnScore = 0\<rparr>]\<rparr>"

definition rgnA :: RgnH5 where
  "rgnA = \<lparr>movieName = ''m1'', scanDataGroup = ''scanA'', rows = [Yield rtA, Yield rtZ]\<rparr>"

definition rgnB :: RgnH5 where
  "rgnB = \<lparr>movieName = ''m2'', scanDataGroup = ''scanB'', rows = [Yield rtZ]\<rparr>"

definition rgnC :: RgnH5 where
  "rgnC = \<lparr>movieName = ''m1'', scanDataGroup = ''scanC'', rows = [Yield rtZ]\<rparr>"

definition rgnTorn :: RgnH5 where
  "rgnTorn = \<lparr>movieName = ''m1'', scanDataGroup = ''scanT'', rows = [Yield rtA, Throw DecodeError]\<rparr>"

definition fsEx :: FS where
  "fsEx = \<lparr>cmpFiles = (\<lambda>p. if p = ''aln.cmp.h5''
                          then CmpH5 [''m1'', ''m2''] [Yield (''m1'', 7), Yield (''m1'', 9), Yield (''m1'', 7)]
                          else if p = ''cut.cmp.h5''
                          then CmpH5 [''m1'', ''m2''] [Yield (''m1'', 7), Throw IndexError, Yield (''m1'', 8)]
                          else if p = ''empty.cmp.h5'' then CmpOpenRaises EmptyCmpH5Error
                          else if p = ''broken.cmp.h5''
                          then CmpH5 [''m1'', ''m2''] [Yield (''m1'', 7), Throw IOError]
                          else CmpOpenRaises IOError),
           textFiles = (\<lambda>p. if p = ''in.fofn'' then Some [''d1/a.rgn.h5\<newline>'', ''d2/b.rgn.h5\<newline>'']
                          else if p = ''bad.fofn'' then Some [''foo.txt\<newline>'']
                          else if p = ''mixed.fofn'' then Some [''d1/a.rgn.h5\<newline>'', ''foo.txt\<newline>'']
                          else if p = ''torn.fofn'' then Some [''torn.rgn.h5\<newline>'']
                          else None),
           rgnFiles = (\<lambda>p. if p = ''d1/a.rgn.h5'' then Some rgnA
                         else if p = ''d2/b.rgn.h5'' then Some rgnB
                         else if p = ''d3/c.rgn.h5'' then Some rgnC
                         else if p = ''torn.rgn.h5'' then Some rgnTorn
                         else None),
           abspath = (\<lambda>p. ''/w/'' @ p),
           pathExists = (\<lambda>p. p \<in> set [''aln.cmp.h5'', ''cut.cmp.h5'', ''empty.cmp.h5'', ''broken.cmp.h5'',
                                        ''in.fofn'', ''bad.fofn'', ''mixed.fofn'', ''torn.fofn'',
                                        ''d1'', ''d2'', ''d3'', ''d1/a.rgn.h5'', ''d2/b.rgn.h5'',
                                        ''d3/c.rgn.h5'', ''torn.rgn.h5'']),
           isDir = (\<lambda>p. p \<in> set [''d1'', ''d2'', ''d3'']),
           mkdirFails = (\<lambda>p. False),
           openWFails = (\<lambda>p. False)\<rparr>"

definition selfEx :: AlignedReadsMasker where
  "selfEx = \<lparr>inCmpFile = ''aln.cmp.h5'', inRgnFofn = ''in.fofn'', outRgnFofn = ''out.fofn''\<rparr>"

definition selfCut :: AlignedReadsMasker where
  "selfCut = \<lparr>inCmpFile = ''cut.cmp.h5'', inRgnFofn = ''in.fofn'', outRgnFofn = ''out.fofn''\<rparr>"




section \<open>The masking mutation and the pass over one file\<close>

lemma maskLoop_all_yield:
  "maskLoop movie alignedReads (map Yield rts) wr =
     (wr\<lparr>tables := tables wr @ map (maskRegionTable movie alignedReads) rts\<rparr>, None)"
  by (induction rts arbitrary: wr) (simp_all add: addRegionTable_def)

lemma setFirstHQ_idem: "setFirstHQ s e (setFirstHQ s e rs) = setFirstHQ s e rs"
  by (induction rs) (simp_all add: isHQ_def)

lemma setFirstHQ_score: "map rgnScore (setFirstHQ s e rs) = map rgnScore rs"
  by (induction rs) simp_all

lemma setFirstHQ_type: "map rgnType (setFirstHQ s e rs) = map rgnType rs"
  by (induction rs) simp_all

lemma setFirstHQ_nonHQ: "filter (\<lambda>r. \<not> isHQ r) (setFirstHQ s e rs) = filter (\<lambda>r. \<not> isHQ r) rs"
  by (induction rs) (simp_all add: isHQ_def)

lemma setFirstHQ_find:
  "find isHQ (setFirstHQ s e rs) = map_option (\<lambda>r. r\<lparr>rgnStart := s, rgnEnd := e\<rparr>) (find isHQ rs)"
  by (induction rs) (simp_all add: isHQ_def)

lemma setFirstHQ_no_HQ: "find isHQ rs = None \<Longrightarrow> setFirstHQ s e rs = rs"
  by (induction rs) (simp_all split: if_splits)

lemma setFirstHQ_pointwise:
  "list_all2 (\<lambda>a b. b = a \<or> (isHQ a \<and> b = a\<lparr>rgnStart := s, rgnEnd := e\<rparr>)) rs (setFirstHQ s e rs)"
  by (induction rs) (simp_all add: list_all2_same)

lemma isAligned_setHQRegion:
  "isAligned movie alignedReads (setHQRegion s e rt) = isAligned movie alignedReads rt"
  by (cases "alignedReads movie") (simp_all add: isAligned_def setHQRegion_def)

text \<open>
  Claim C8. Masking is idempotent and leaves the score alone: setting the HQRegion to
  (0, 0) twice gives the record that setting it once gives, for the mutation itself and
  for the guarded mutation of the pass; the hole number, every type tag and every score
  stay as they were; the HQRegion found afterwards is the one found before with start
  and end set to zero; and position by position a sub-region is either unchanged or is
  an HQRegion whose start and end, and nothing else, were set to zero.
\<close>

theorem masking_idempotent_score_kept:
  "setHQRegion 0 0 (setHQRegion 0 0 rt) = setHQRegion 0 0 rt
   \<and> maskRegionTable movie alignedReads (maskRegionTable movie alignedReads rt)
       = maskRegionTable movie alignedReads rt
   \<and> holeNumber (setHQRegion 0 0 rt) = holeNumber rt
   \<and> map rgnScore (regions (setHQRegion 0 0 rt)) = map rgnScore (regions rt)
   \<and> map rgnType (regions (setHQRegion 0 0 rt)) = map rgnType (regions rt)
   \<and> getHQRegion (setHQRegion 0 0 rt)
       = map_option (\<lambda>r. r\<lparr>rgnStart := 0, rgnEnd := 0\<rparr>) (getHQRegion rt)
   \<and> list_all2 (\<lambda>a b. b = a \<or> (isHQ a \<and> b = a\<lparr>rgnStart := 0, rgnEnd := 0\<rparr>))
        (regions rt) (regions (setHQRegion 0 0 rt))"
proof -
  have idem: "setHQRegion 0 0 (setHQRegion 0 0 rt) = setHQRegion 0 0 rt"
    by (simp add: setHQRegion_def setFirstHQ_idem)
  have mask: "maskRegionTable movie alignedReads (maskRegionTable movie alignedReads rt)
       = maskRegionTable movie alignedReads rt"
    by (simp add: maskRegionTable_def isAligned_setHQRegion idem)
  have hole: "holeNumber (setHQRegion 0 0 rt) = holeNumber rt"
    by (simp add: setHQRegion_def)
  have score: "map rgnScore (regions (setHQRegion 0 0 rt)) = map rgnScore (regions rt)"
    by (simp add: setHQRegion_def setFirstHQ_score)
  have type: "map rgnType (regions (setHQRegion 0 0 rt)) = map rgnType (regions rt)"
    by (simp add: setHQRegion_def setFirstHQ_type)
  have hq: "getHQRegion (setHQRegion 0 0 rt)
       = map_option (\<lambda>r. r\<lparr>rgnStart := 0, rgnEnd := 0\<rparr>) (getHQRegion rt)"
    by (simp add: setHQRegion_def getHQRegion_def setFirstHQ_find)
  have pw: "list_all2 (\<lambda>a b. b = a \<or> (isHQ a \<and> b = a\<lparr>rgnStart := 0, rgnEnd := 0\<rparr>))
        (regions rt) (regions (setHQRegion 0 0 rt))"
    by (simp add: setHQRegion_def setFirstHQ_pointwise)
  from idem mask hole score type hq pw show ?thesis by blast
qed

text \<open>
  The same on a record with an adapter and an HQRegion of score 850.
\<close>

theorem masking_idempotent_score_kept_witness:
  "setHQRegion 0 0 (setHQRegion 0 0 rtA) = setHQRegion 0 0 rtA
   \<and> map rgnScore (regions (setHQRegion 0 0 rtA)) = [600, 850]
   \<and> getHQRegion (setHQRegion 0 0 rtA)
       = Some \<lparr>rgnType = ''HQRegion'', rgnStart = 0, rgnEnd = 0, rgnScore = 850\<rparr>"
  using masking_idempotent_score_kept [of rtA "''m1''" Map.empty]
  by (simp add: rtA_def getHQRegion_def isHQ_def)

lemma maskRegionTable_cases:
  "maskRegionTable movie alignedReads rt =
     (if isAligned movie alignedReads rt \<and> getHQRegion rt \<noteq> None then setHQRegion 0 0 rt else rt)"
  by (auto simp: maskRegionTable_def setHQRegion_def getHQRegion_def setFirstHQ_no_HQ)

lemma hqSpan_setHQRegion:
  "hqSpan (setHQRegion s e rt) = (if getHQRegion rt = None then None else Some (s, e))"
  by (cases "find isHQ (regions rt)")
     (simp_all add: hqSpan_def getHQRegion_def setHQRegion_def setFirstHQ_find)

lemma nonHQ_setHQRegion: "nonHQ (setHQRegion s e rt) = nonHQ rt"
  by (simp add: nonHQ_def setHQRegion_def setFirstHQ_nonHQ)

lemma maskRegionTable_pointwise:
  "holeNumber (maskRegionTable movie alignedReads rt) = holeNumber rt
   \<and> (hqSpan (maskRegionTable movie alignedReads rt) = Some (0, 0)
        \<longleftrightarrow> (isAligned movie alignedReads rt \<and> getHQRegion rt \<noteq> None) \<or> hqSpan rt = Some (0, 0))
   \<and> (if isAligned movie alignedReads rt \<and> getHQRegion rt \<noteq> None
       then maskRegionTable movie alignedReads rt = setHQRegion 0 0 rt
       else maskRegionTable movie alignedReads rt = rt)
   \<and> nonHQ (maskRegionTable movie alignedReads rt) = nonHQ rt
   \<and> map rgnType (regions (maskRegionTable movie alignedReads rt)) = map rgnType (regions rt)
   \<and> map rgnScore (regions (maskRegionTable movie alignedReads rt)) = map rgnScore (regions rt)"
proof (cases "isAligned movie alignedReads rt \<and> getHQRegion rt \<noteq> None")
  case True
  then have m: "maskRegionTable movie alignedReads rt = setHQRegion 0 0 rt"
    by (simp add: maskRegionTable_cases)
  show ?thesis
    unfolding m using True
    by (simp add: hqSpan_setHQRegion nonHQ_setHQRegion)
       (simp add: setHQRegion_def setFirstHQ_type setFirstHQ_score)
next
  case False
  then have m: "maskRegionTable movie alignedReads rt = rt"
    by (auto simp: maskRegionTable_cases)
  show ?thesis
    unfolding m using False by auto
qed

text \<open>
  Claim C1, as amended. The pass over a file whose records all decode ends normally and
  writes one record per input record, in the input's order and with the same hole
  numbers. Record by record: the output's HQRegion is (0, 0) exactly when the record is
  in the index under the file's movie name and has an HQRegion, or its HQRegion was
  (0, 0) already; a record that is in the index and has an HQRegion is written with
  its HQRegion set to (0, 0), any other record is written as it was read; and the
  sub-regions other than the HQRegion, all type tags and all scores are those of the
  input.
\<close>

theorem mask_pass_pointwise:
  "maskLoop movie alignedReads (map Yield rts) (writeScanDataGroup newWriter sd) = (wr, ex) \<Longrightarrow>
   ex = None \<and> scan wr = Some sd \<and> length (tables wr) = length rts
   \<and> map holeNumber (tables wr) = map holeNumber rts
   \<and> list_all2 (\<lambda>a b.
        (hqSpan b = Some (0, 0)
           \<longleftrightarrow> (isAligned movie alignedReads a \<and> getHQRegion a \<noteq> None) \<or> hqSpan a = Some (0, 0))
        \<and> (if isAligned movie alignedReads a \<and> getHQRegion a \<noteq> None
            then b = setHQRegion 0 0 a else b = a)
        \<and> nonHQ b = nonHQ a
        \<and> map rgnType (regions b) = map rgnType (regions a)
        \<and> map rgnScore (regions b) = map rgnScore (regions a)) rts (tables wr)"
proof -
  assume run: "maskLoop movie alignedReads (map Yield rts) (writeScanDataGroup newWriter sd) = (wr, ex)"
  have wr: "wr = writeScanDataGroup newWriter sd
               \<lparr>tables := map (maskRegionTable movie alignedReads) rts\<rparr>" and ex: "ex = None"
    using run by (simp_all add: maskLoop_all_yield writeScanDataGroup_def newWriter_def)
  have tabs: "tables wr = map (maskRegionTable movie alignedReads) rts"
    by (simp add: wr)
  have hole: "map holeNumber (tables wr) = map holeNumber rts"
    by (simp add: tabs maskRegionTable_pointwise)
  have pw: "list_all2 (\<lambda>a b.
        (hqSpan b = Some (0, 0)
           \<longleftrightarrow> (isAligned movie alignedReads a \<and> getHQRegion a \<noteq> None) \<or> hqSpan a = Some (0, 0))
        \<and> (if isAligned movie alignedReads a \<and> getHQRegion a \<noteq> None
            then b = setHQRegion 0 0 a else b = a)
        \<and> nonHQ b = nonHQ a
        \<and> map rgnType (regions b) = map rgnType (regions a)
        \<and> map rgnScore (regions b) = map rgnScore (regions a)) rts (tables wr)"
    unfolding tabs list_all2_map2
    by (rule list_all2_refl) (use maskRegionTable_pointwise in blast)
  show ?thesis
    using ex hole pw by (simp add: tabs) (simp add: wr writeScanDataGroup_def)
qed

text \<open>
  Two records of movie m1, of which hole 7 is aligned: the first is masked, the second
  is copied.
\<close>

theorem mask_pass_pointwise_witness:
  "tables (fst (maskLoop ''m1'' [''m1'' \<mapsto> {7}] (map Yield [rtA, rtZ]) (writeScanDataGroup newWriter ''sd'')))
     = [setHQRegion 0 0 rtA, rtZ]
   \<and> hqSpan (setHQRegion 0 0 rtA) = Some (0, 0)"
  using mask_pass_pointwise [of "''m1''" "[''m1'' \<mapsto> {7}]" "[rtA, rtZ]" "''sd''"
      "fst (maskLoop ''m1'' [''m1'' \<mapsto> {7}] (map Yield [rtA, rtZ]) (writeScanDataGroup newWriter ''sd''))"
      "snd (maskLoop ''m1'' [''m1'' \<mapsto> {7}] (map Yield [rtA, rtZ]) (writeScanDataGroup newWriter ''sd''))"]
  by (simp add: isAligned_def rtA_def rtZ_def getHQRegion_def isHQ_def hqSpan_def list_all2_Cons1)

text \<open>
  Claim C1 as stated fails from right to left: a record whose HQRegion is (0, 0) in the
  input, as the region table of an empty hole has it, comes out with HQRegion (0, 0)
  although it is not in the index.
\<close>

theorem mask_iff_counterexample:
  "tables (fst (maskLoop ''m1'' Map.empty [Yield rtZ] (writeScanDataGroup newWriter ''sd''))) = [rtZ]
   \<and> hqSpan rtZ = Some (0, 0)
   \<and> \<not> isAligned ''m1'' Map.empty rtZ"
  by (simp add: isAligned_def rtZ_def getHQRegion_def isHQ_def hqSpan_def maskRegionTable_def
      addRegionTable_def writeScanDataGroup_def newWriter_def)

section \<open>The index build\<close>

lemma seedMovies_eq:
  "seedMovies idx names = (\<lambda>m. if m \<in> set names \<and> idx m = None then Some {} else idx m)"
  by (induction names arbitrary: idx) (auto simp: setdefault_empty_def fun_eq_iff split: option.splits)

lemma addAlignments_yields:
  "fst ` set alns \<subseteq> dom idx \<Longrightarrow>
   addAlignments idx (map Yield alns @ rest) =
   addAlignments (\<lambda>m. map_option (\<lambda>s. s \<union> {h. (m, h) \<in> set alns}) (idx m)) rest"
proof (induction alns arbitrary: idx)
  case Nil
  have "(\<lambda>m. map_option (\<lambda>s. s) (idx m)) = idx"
    by (simp add: fun_eq_iff option.map_ident)
  then show ?case by simp
next
  case (Cons a alns)
  obtain name hole where a: "a = (name, hole)" by (cases a)
  from Cons.prems a obtain s where s: "idx name = Some s" by auto
  have dom': "fst ` set alns \<subseteq> dom (idx(name \<mapsto> insert hole s))"
    using Cons.prems by auto
  have eq: "(\<lambda>m. map_option (\<lambda>t. t \<union> {h. (m, h) \<in> set alns}) ((idx(name \<mapsto> insert hole s)) m))
          = (\<lambda>m. map_option (\<lambda>t. t \<union> {h. (m, h) \<in> set (a # alns)}) (idx m))"
    using s a by (auto simp: fun_eq_iff)
  have "addAlignments idx (map Yield (a # alns) @ rest)
          = addAlignments (idx(name \<mapsto> insert hole s)) (map Yield alns @ rest)"
    by (simp add: a s)
  also have "\<dots> = addAlignments
      (\<lambda>m. map_option (\<lambda>t. t \<union> {h. (m, h) \<in> set alns}) ((idx(name \<mapsto> insert hole s)) m)) rest"
    by (rule Cons.IH [OF dom'])
  finally show ?case
    by (simp only: eq)
qed

lemma tryExtract_yields:
  assumes "fst ` set alns \<subseteq> set names"
  shows "tryExtract (CmpH5 names (map Yield alns @ rest)) = addAlignments (indexOf names alns) rest"
proof -
  have d: "fst ` set alns \<subseteq> dom (seedMovies Map.empty names)"
    using assms by (auto simp: seedMovies_eq dom_def)
  have e: "(\<lambda>m. map_option (\<lambda>s. s \<union> {h. (m, h) \<in> set alns}) (seedMovies Map.empty names m))
        = indexOf names alns"
    by (auto simp: seedMovies_eq indexOf_def fun_eq_iff)
  show ?thesis
    unfolding tryExtract_def cmp_archive.case addAlignments_yields [OF d] e ..
qed

text \<open>
  Claim C6. When the archive opens and its iteration runs to the end, with every
  record's movie in the movie table, the index build returns normally and without a
  message; the keys of the mapping are exactly the movie names of the movie table,
  also those without any aligned read, and the value of each is the set of the hole
  numbers of its records, where a hole number that occurs twice counts once.
\<close>

theorem index_build_complete:
  assumes "cmpFiles fs (inCmpFile self) = CmpH5 names (map Yield alns)"
    and "fst ` set alns \<subseteq> set names"
  shows "\<exists>idx. extractAlignedReads fs self = (Inr idx, [])
           \<and> dom idx = set names
           \<and> (\<forall>m \<in> set names. idx m = Some {h. (m, h) \<in> set alns})"
proof -
  have "tryExtract (CmpH5 names (map Yield alns)) = (indexOf names alns, None)"
    using tryExtract_yields [OF assms(2), of "[]"] by simp
  then have "extractAlignedReads fs self = (Inr (indexOf names alns), [])"
    by (simp add: extractAlignedReads_def assms(1))
  moreover have "dom (indexOf names alns) = set names"
    by (auto simp: indexOf_def dom_def)
  moreover have "\<forall>m \<in> set names. indexOf names alns m = Some {h. (m, h) \<in> set alns}"
    by (simp add: indexOf_def)
  ultimately show ?thesis by blast
qed

text \<open>
  An archive with movies m1 and m2 and three records of m1, hole 7 twice: m1 maps to
  the two holes, m2 to the empty set, and a movie outside the table is no key.
\<close>

theorem index_build_complete_witness:
  "\<exists>idx. extractAlignedReads fsEx selfEx = (Inr idx, [])
      \<and> idx ''m1'' = Some {7, 9} \<and> idx ''m2'' = Some {} \<and> idx ''m3'' = None"
proof -
  have c: "cmpFiles fsEx (inCmpFile selfEx)
             = CmpH5 [''m1'', ''m2''] (map Yield [(''m1'', 7), (''m1'', 9), (''m1'', 7)])"
    by (simp add: fsEx_def selfEx_def)
  have s: "fst ` set [(''m1'', 7::int), (''m1'', 9), (''m1'', 7)] \<subseteq> set [''m1'', ''m2'']"
    by simp
  from index_build_complete [OF c s] obtain idx where
    e: "extractAlignedReads fsEx selfEx = (Inr idx, [])"
    and d: "dom idx = set [''m1'', ''m2'']"
    and v: "\<forall>m \<in> set [''m1'', ''m2'']. idx m = Some {h. (m, h) \<in> set [(''m1'', 7), (''m1'', 9), (''m1'', 7)]}"
    by blast
  have "idx ''m1'' = Some {7, 9}" using v by auto
  moreover have "idx ''m2'' = Some {}" using v by auto
  moreover have "idx ''m3'' = None"
  proof -
    have "''m3'' \<notin> dom idx" unfolding d by simp
    then show ?thesis by (simp add: domIff)
  qed
  ultimately show ?thesis using e by blast
qed

section \<open>One turn of the loop and the loop\<close>

lemma decodes_yields: "decodes ss \<Longrightarrow> ss = map Yield (yields ss)"
  by (induction ss rule: decodes.induct) simp_all

lemma maskLoop_decodes:
  "decodes ss \<Longrightarrow> maskLoop movie alignedReads ss wr =
     (wr\<lparr>tables := tables wr @ map (maskRegionTable movie alignedReads) (yields ss)\<rparr>, None)"
  using maskLoop_all_yield [of movie alignedReads "yields ss" wr] decodes_yields [of ss]
  by simp

lemma maskLoop_not_decodes:
  "\<not> decodes ss \<Longrightarrow> \<exists>e. maskLoop movie alignedReads ss wr =
     (wr\<lparr>tables := tables wr @ map (maskRegionTable movie alignedReads) (yields ss)\<rparr>, Some e)"
proof (induction ss arbitrary: wr rule: decodes.induct)
  case 1
  then show ?case by simp
next
  case (2 e uu)
  then show ?case by simp
next
  case (3 x rest)
  then have "\<not> decodes rest" by simp
  from 3(1) [OF this, of "addRegionTable wr (maskRegionTable movie alignedReads x)"]
  show ?case by (simp add: addRegionTable_def)
qed

lemma processFile_bad:
  "\<not> endswith (strip line) ''rgn.h5'' \<Longrightarrow>
   processFile fs alignedReads outDir line w =
     (Some (Returned 1), w\<lparr>messages := messages w @ [badLineMsg (strip line)]\<rparr>)"
  by (simp add: processFile_def)

lemma processFile_good:
  "goodLine fs line \<Longrightarrow>
   processFile fs alignedReads outDir line w = (None, turnOK fs alignedReads outDir w line)"
  by (auto simp: goodLine_def processFile_def turnOK_def plannedPath_def maskedCopy_def
      maskLoop_decodes writeScanDataGroup_def newWriter_def closeWriter_def Let_def
      split: option.splits)

lemma processFile_None:
  "processFile fs alignedReads outDir line w = (None, w') \<Longrightarrow> goodLine fs line"
proof (rule ccontr)
  assume r: "processFile fs alignedReads outDir line w = (None, w')" and n: "\<not> goodLine fs line"
  show False
  proof (cases "endswith (strip line) ''rgn.h5''")
    case False
    then show False using r by (simp add: processFile_bad)
  next
    case True
    show False
    proof (cases "rgnFiles fs (strip line)")
      case None
      then show False using r True by (simp add: processFile_def)
    next
      case (Some rd)
      then have "\<not> decodes (rows rd)" using n True by (simp add: goodLine_def)
      from maskLoop_not_decodes [OF this] obtain e where
        "maskLoop (movieName rd) alignedReads (rows rd) (writeScanDataGroup newWriter (scanDataGroup rd))
           = (writeScanDataGroup newWriter (scanDataGroup rd)
               \<lparr>tables := tables (writeScanDataGroup newWriter (scanDataGroup rd))
                   @ map (maskRegionTable (movieName rd) alignedReads) (yields (rows rd))\<rparr>, Some e)"
        by blast
      then show False using r True Some by (simp add: processFile_def Let_def)
    qed
  qed
qed


lemma processLines_good:
  "\<forall>l \<in> set ls. goodLine fs l \<Longrightarrow>
   processLines fs alignedReads outDir ls w = (None, foldl (turnOK fs alignedReads outDir) w ls)"
  by (induction ls arbitrary: w) (simp_all add: processFile_good)

lemma processLines_None:
  "processLines fs alignedReads outDir ls w = (None, w') \<Longrightarrow> \<forall>l \<in> set ls. goodLine fs l"
proof (induction ls arbitrary: w)
  case Nil
  then show ?case by simp
next
  case (Cons l ls)
  obtain oc w1 where p: "processFile fs alignedReads outDir l w = (oc, w1)"
    by (cases "processFile fs alignedReads outDir l w")
  with Cons.prems have oc: "oc = None" by (cases oc) simp_all
  with p have g: "goodLine fs l" by (simp add: processFile_None)
  from Cons.prems p oc have "processLines fs alignedReads outDir ls w1 = (None, w')" by simp
  from Cons.IH [OF this] g show ?case by simp
qed

section \<open>An IndexError while the archive is read\<close>

text \<open>
  Claim C9. When the iteration over the archive raises IndexError after it has yielded
  some records, the index build swallows the exception, writes the message that no
  aligned reads were found to the error stream and to the log, and returns the index
  built so far: every movie of the table is a key and maps to the hole numbers of the
  records yielded before the exception. The masking pass then runs with that index,
  so the run neither ends with the exception nor masks with an empty index.
\<close>

theorem index_error_keeps_partial_index:
  assumes "cmpFiles fs (inCmpFile self) = CmpH5 names (map Yield alns @ Throw IndexError # rest)"
    and "fst ` set alns \<subseteq> set names"
  shows "\<exists>idx. extractAlignedReads fs self
              = (Inr idx, [Stderr (''No aligned reads found in '' @ inCmpFile self @ [CHR 0x0A]), LogWarn (''No aligned reads found in '' @ inCmpFile self)])
           \<and> dom idx = set names
           \<and> (\<forall>m \<in> set names. idx m = Some {h. (m, h) \<in> set alns})
           \<and> maskAlignedReads fs self
              = maskWithIndex fs self idx
                  (w0\<lparr>messages := [Stderr (''No aligned reads found in '' @ inCmpFile self @ [CHR 0x0A]), LogWarn (''No aligned reads found in '' @ inCmpFile self)]\<rparr>)"
proof -
  have "tryExtract (CmpH5 names (map Yield alns @ Throw IndexError # rest))
          = (indexOf names alns, Some IndexError)"
    using tryExtract_yields [OF assms(2), of "Throw IndexError # rest"] by simp
  then have e: "extractAlignedReads fs self
      = (Inr (indexOf names alns), [Stderr (''No aligned reads found in '' @ inCmpFile self @ [CHR 0x0A]), LogWarn (''No aligned reads found in '' @ inCmpFile self)])"
    by (simp add: extractAlignedReads_def noReadsMsg_def assms(1))
  then have m: "maskAlignedReads fs self
      = maskWithIndex fs self (indexOf names alns)
          (w0\<lparr>messages := [Stderr (''No aligned reads found in '' @ inCmpFile self @ [CHR 0x0A]), LogWarn (''No aligned reads found in '' @ inCmpFile self)]\<rparr>)"
    by (simp add: maskAlignedReads_def)
  have "dom (indexOf names alns) = set names"
    by (auto simp: indexOf_def dom_def)
  moreover have "\<forall>m \<in> set names. indexOf names alns m = Some {h. (m, h) \<in> set alns}"
    by (simp add: indexOf_def)
  ultimately show ?thesis using e m by blast
qed

lemma maskWithIndex_in_fofn:
  assumes "inRgnFofn self = ''in.fofn''" and "outRgnFofn self = ''out.fofn''"
  shows "maskWithIndex fsEx self idx w =
     (Returned 0,
      w\<lparr>madeDirs := madeDirs w @ [''out''],
        fofnOut := Some [''/w/out/m1.rgn.h5\<newline>'', ''/w/out/m2.rgn.h5\<newline>''],
        outs := (outs w)(''/w/out/m1.rgn.h5'' \<mapsto> maskedCopy idx rgnA,
                         ''/w/out/m2.rgn.h5'' \<mapsto> maskedCopy idx rgnB)\<rparr>)"
proof -
  have g: "\<forall>l \<in> set [''d1/a.rgn.h5\<newline>'', ''d2/b.rgn.h5\<newline>'']. goodLine fsEx l"
    by (simp add: goodLine_def strip_def isspace_def endswith_def fsEx_def rgnA_def rgnB_def)
  have p1: "plannedPath fsEx ''out'' ''d1/a.rgn.h5\<newline>'' = ''/w/out/m1.rgn.h5''"
    by (simp add: plannedPath_def strip_def isspace_def fsEx_def rgnA_def outH5FN_of_def
        basename_def movieId_of_def join_def startswith_def endswith_def isdigit_def)
  have p2: "plannedPath fsEx ''out'' ''d2/b.rgn.h5\<newline>'' = ''/w/out/m2.rgn.h5''"
    by (simp add: plannedPath_def strip_def isspace_def fsEx_def rgnB_def outH5FN_of_def
        basename_def movieId_of_def join_def startswith_def endswith_def isdigit_def)
  have r1: "rgnFiles fsEx (strip ''d1/a.rgn.h5\<newline>'') = Some rgnA"
    by (simp add: strip_def isspace_def fsEx_def)
  have r2: "rgnFiles fsEx (strip ''d2/b.rgn.h5\<newline>'') = Some rgnB"
    by (simp add: strip_def isspace_def fsEx_def)
  have d: "splitext_root (outRgnFofn self) = ''out''"
    by (simp add: assms splitext_root_def rfind_def)
  have d0: "splitext_root ''out.fofn'' = ''out''"
    by (simp add: splitext_root_def rfind_def)
  have o: "outFofnOpens fsEx self"
    by (simp add: outFofnOpens_def Let_def assms d0 samePath_def fsEx_def)
  have t: "inFofnLines fsEx self
      = Some [''d1/a.rgn.h5\<newline>'', ''d2/b.rgn.h5\<newline>'']"
    by (simp add: inFofnLines_def Let_def assms d0 samePath_def fsEx_def)
  have e: "\<not> pathExists fsEx ''out''" "\<not> mkdirFails fsEx ''out''"
    by (simp_all add: fsEx_def)
  have f: "foldl (turnOK fsEx idx ''out'') w2 [''d1/a.rgn.h5\<newline>'', ''d2/b.rgn.h5\<newline>'']
      = w2\<lparr>fofnOut := map_option (\<lambda>ls. ls @ [''/w/out/m1.rgn.h5\<newline>'', ''/w/out/m2.rgn.h5\<newline>'']) (fofnOut w2),
          outs := (outs w2)(''/w/out/m1.rgn.h5'' \<mapsto> maskedCopy idx rgnA,
                            ''/w/out/m2.rgn.h5'' \<mapsto> maskedCopy idx rgnB)\<rparr>" for w2
    by (simp add: turnOK_def r1 r2 p1 p2 option.map_comp comp_def)
  have pl: "processLines fsEx idx ''out'' [''d1/a.rgn.h5\<newline>'', ''d2/b.rgn.h5\<newline>''] w2
      = (None, w2\<lparr>fofnOut := map_option (\<lambda>ls. ls @ [''/w/out/m1.rgn.h5\<newline>'', ''/w/out/m2.rgn.h5\<newline>'']) (fofnOut w2),
          outs := (outs w2)(''/w/out/m1.rgn.h5'' \<mapsto> maskedCopy idx rgnA,
                            ''/w/out/m2.rgn.h5'' \<mapsto> maskedCopy idx rgnB)\<rparr>)" for w2
    unfolding processLines_good [OF g] f ..
  show ?thesis
    by (simp add: maskWithIndex_def d o t Let_def pl e del: processLines.simps)
qed

text \<open>
  A run on an archive that yields hole 7 of m1 and then raises IndexError: the index
  holds hole 7, the pass returns 0, and hole 7 is masked in the output.
\<close>

theorem index_error_keeps_partial_index_witness:
  "\<exists>idx. extractAlignedReads fsEx selfCut
           = (Inr idx, [Stderr ''No aligned reads found in cut.cmp.h5\<newline>'',
                        LogWarn ''No aligned reads found in cut.cmp.h5''])
      \<and> idx ''m1'' = Some {7}
      \<and> fst (maskAlignedReads fsEx selfCut) = Returned 0
      \<and> map_option tables (outs (snd (maskAlignedReads fsEx selfCut)) ''/w/out/m1.rgn.h5'')
          = Some [setHQRegion 0 0 rtA, rtZ]"
proof -
  have c: "cmpFiles fsEx (inCmpFile selfCut)
      = CmpH5 [''m1'', ''m2''] (map Yield [(''m1'', 7)] @ Throw IndexError # [Yield (''m1'', 8)])"
    by (simp add: fsEx_def selfCut_def)
  have s: "fst ` set [(''m1'', 7::int)] \<subseteq> set [''m1'', ''m2'']"
    by simp
  have n: "''No aligned reads found in '' @ inCmpFile selfCut @ [CHR 0x0A]
             = ''No aligned reads found in cut.cmp.h5\<newline>''"
     "''No aligned reads found in '' @ inCmpFile selfCut = ''No aligned reads found in cut.cmp.h5''"
    by (simp_all add: selfCut_def)
  from index_error_keeps_partial_index [OF c s, unfolded n] obtain idx where
    e: "extractAlignedReads fsEx selfCut
          = (Inr idx, [Stderr ''No aligned reads found in cut.cmp.h5\<newline>'',
                       LogWarn ''No aligned reads found in cut.cmp.h5''])"
    and v: "\<forall>m \<in> set [''m1'', ''m2'']. idx m = Some {h. (m, h) \<in> set [(''m1'', 7)]}"
    and m: "maskAlignedReads fsEx selfCut
          = maskWithIndex fsEx selfCut idx
              (w0\<lparr>messages := [Stderr ''No aligned reads found in cut.cmp.h5\<newline>'',
                                LogWarn ''No aligned reads found in cut.cmp.h5'']\<rparr>)"
    by blast
  have i: "idx ''m1'' = Some {7}" using v by auto
  have a7: "isAligned ''m1'' idx rtA" and a8: "\<not> isAligned ''m1'' idx rtZ"
    by (simp_all add: isAligned_def i rtA_def rtZ_def)
  have t: "tables (maskedCopy idx rgnA) = [setHQRegion 0 0 rtA, rtZ]"
    by (simp add: maskedCopy_def rgnA_def maskRegionTable_def a7 a8)
  have mw: "maskWithIndex fsEx selfCut idx w =
     (Returned 0,
      w\<lparr>madeDirs := madeDirs w @ [''out''],
        fofnOut := Some [''/w/out/m1.rgn.h5\<newline>'', ''/w/out/m2.rgn.h5\<newline>''],
        outs := (outs w)(''/w/out/m1.rgn.h5'' \<mapsto> maskedCopy idx rgnA,
                         ''/w/out/m2.rgn.h5'' \<mapsto> maskedCopy idx rgnB)\<rparr>)" for w
    by (rule maskWithIndex_in_fofn) (simp_all add: selfCut_def)
  show ?thesis
    using e i t by (simp add: m mw)
qed

section \<open>Output names\<close>

text \<open>
  Claim C4. The code and the naming rule of the claim differ on a filename in which
  the character between the digit and \<open>rgn.h5\<close> is not a dot: \<open>movie.3_rgn.h5\<close> passes
  the suffix check of the loop, the pattern of the code matches it, and the code's stem
  is \<open>movie.3\<close>, where the rule gives the declared movie name \<open>M1\<close>. On the two
  filenames of the claim the code gives the stems the rule gives.
\<close>

theorem stem_unescaped_dot:
  "endswith ''movie.3_rgn.h5'' ''rgn.h5''
   \<and> movieId_of (basename ''movie.3_rgn.h5'') ''M1'' = ''movie.3''
   \<and> spec_stem (basename ''movie.3_rgn.h5'') ''M1'' = ''M1''
   \<and> movieId_of (basename ''m130226_022844_s1_p0.3.rgn.h5'') ''M1'' = ''m130226_022844_s1_p0.3''
   \<and> spec_stem (basename ''m130226_022844_s1_p0.3.rgn.h5'') ''M1'' = ''m130226_022844_s1_p0.3''
   \<and> movieId_of (basename ''m130226_022844_s1_p0.rgn.h5'') ''M1'' = ''M1''
   \<and> spec_stem (basename ''m130226_022844_s1_p0.rgn.h5'') ''M1'' = ''M1''"
  by (simp add: movieId_of_def spec_stem_def spec_isPartName_def basename_def endswith_def
      startswith_def isdigit_def)




section \<open>The world after the loop\<close>







lemma processFile_fofn_created:
  "processFile fs alignedReads outDir l w = (oc, w') \<Longrightarrow> fofnOut w \<noteq> None \<Longrightarrow> fofnOut w' \<noteq> None"
  by (auto simp: processFile_def Let_def split: if_splits option.splits prod.splits)

lemma processLines_fofn_created:
  "processLines fs alignedReads outDir ls w = (oc, w') \<Longrightarrow> fofnOut w \<noteq> None \<Longrightarrow> fofnOut w' \<noteq> None"
proof (induction ls arbitrary: w)
  case Nil
  then show ?case by simp
next
  case (Cons l ls)
  obtain o1 w1 where p: "processFile fs alignedReads outDir l w = (o1, w1)"
    by (cases "processFile fs alignedReads outDir l w")
  then have f: "fofnOut w1 \<noteq> None"
    using Cons.prems(2) processFile_fofn_created by blast
  show ?case
  proof (cases o1)
    case None
    with Cons.prems(1) p have "processLines fs alignedReads outDir ls w1 = (oc, w')" by simp
    from Cons.IH [OF this f] show ?thesis .
  next
    case (Some a)
    with Cons.prems(1) p f show ?thesis by auto
  qed
qed

lemma processFile_returns_1:
  "processFile fs alignedReads outDir l w = (Some (Returned r), w') \<Longrightarrow> r = 1"
  by (auto simp: processFile_def Let_def split: if_splits option.splits prod.splits)

lemma processLines_returns_1:
  "processLines fs alignedReads outDir ls w = (Some (Returned r), w') \<Longrightarrow> r = 1"
proof (induction ls arbitrary: w)
  case Nil
  then show ?case by simp
next
  case (Cons l ls)
  obtain o1 w1 where p: "processFile fs alignedReads outDir l w = (o1, w1)"
    by (cases "processFile fs alignedReads outDir l w")
  show ?case
  proof (cases o1)
    case None
    with Cons.prems p have "processLines fs alignedReads outDir ls w1 = (Some (Returned r), w')" by simp
    from Cons.IH [OF this] show ?thesis .
  next
    case (Some a)
    with Cons.prems p have "processFile fs alignedReads outDir l w = (Some (Returned r), w')" by simp
    then show ?thesis by (rule processFile_returns_1)
  qed
qed

section \<open>The turn and the loop in closed form\<close>















section \<open>A manifest line with a wrong suffix\<close>





text \<open>
  The runs that do not reach the loop. An \<open>outRgnFofn\<close> without extension, at which
  nothing exists yet: line 47 makes a directory there and line 49 raises IOError. An
  input manifest that is the output manifest: line 49 empties it, the loop has no
  line to read, and the pass returns 0 with an empty manifest.
\<close>

lemma maskWithIndex_no_extension:
  assumes "splitext_root (outRgnFofn self) = outRgnFofn self"
    and "\<not> pathExists fs (outRgnFofn self)" and "\<not> mkdirFails fs (outRgnFofn self)"
  shows "maskWithIndex fs self alignedReads w
           = (Raised IOError, w\<lparr>madeDirs := madeDirs w @ [outRgnFofn self]\<rparr>)"
  using assms by (simp add: maskWithIndex_def outFofnOpens_def samePath_def Let_def)

lemma maskWithIndex_same_manifest:
  assumes "inRgnFofn self = outRgnFofn self"
    and "outFofnOpens fs self" and "\<not> isDir fs (inRgnFofn self)"
    and "pathExists fs (splitext_root (outRgnFofn self))"
  shows "maskWithIndex fs self alignedReads w = (Returned 0, w\<lparr>fofnOut := Some []\<rparr>)"
  using assms by (simp add: maskWithIndex_def inFofnLines_def samePath_def Let_def)

lemma maskWithIndex_no_extension_example:
  "maskWithIndex fsEx \<lparr>inCmpFile = ''aln.cmp.h5'', inRgnFofn = ''bad.fofn'', outRgnFofn = ''out''\<rparr>
     alignedReads w0 = (Raised IOError, w0\<lparr>madeDirs := [''out'']\<rparr>)"
proof -
  have "splitext_root ''out'' = ''out''"
    by (simp add: splitext_root_def rfind_def)
  then show ?thesis
    using maskWithIndex_no_extension
      [of "\<lparr>inCmpFile = ''aln.cmp.h5'', inRgnFofn = ''bad.fofn'', outRgnFofn = ''out''\<rparr>" fsEx alignedReads w0]
    by (simp add: fsEx_def w0_def)
qed

lemma maskWithIndex_same_manifest_example:
  "maskWithIndex fsEx \<lparr>inCmpFile = ''aln.cmp.h5'', inRgnFofn = ''in.fofn'', outRgnFofn = ''in.fofn''\<rparr>
     alignedReads w0 = (Returned 0, w0\<lparr>madeDirs := [''in''], fofnOut := Some []\<rparr>)"
proof -
  have "splitext_root ''in.fofn'' = ''in''"
    by (simp add: splitext_root_def rfind_def)
  then show ?thesis
    by (simp add: maskWithIndex_def outFofnOpens_def inFofnLines_def samePath_def Let_def fsEx_def w0_def)
qed










section \<open>The exit code on a bad manifest line\<close>




section \<open>An archive without alignments\<close>














section \<open>The order of manifest line and output file\<close>










end
